theory Spec2Isabelle
  imports Complex_Main
begin

section \<open>Numbers and errors\<close>

text \<open>
  The program \<^verbatim>\<open>power_triangle_harmonics.py\<close> computes the power triangle of a circuit
  from three inputs and draws it. Its numbers are binary64 floats. The three inputs are
  finite floats, modelled by the reals they denote (the texts \<^verbatim>\<open>inf\<close> and \<^verbatim>\<open>nan\<close>,
  which \<^verbatim>\<open>float\<close> also accepts, are outside the model). Every value the program
  computes from them is an \<open>npfloat\<close>: a finite value, an infinity or NaN.
\<close>

datatype npfloat = Fin real | PInf | NInf | NaN

datatype error = ValueError string | OverflowError

text \<open>
  The floating-point operations of Python and numpy are not code of the repository.
  They are parameters of the model, collected in a record: nothing is assumed about
  what they return, so rounding, underflow to zero, overflow to an infinity and NaN
  are all allowed, and a theorem stated for every \<open>arith\<close> holds for binary64.
  \<open>float_pow2\<close> is the value of the Python expression \<^verbatim>\<open>x**2\<close> on a float when it does
  not raise; the other fields are numpy's operations on \<^verbatim>\<open>float64\<close>.
\<close>

record arith =
  float_pow2 :: "real \<Rightarrow> npfloat"
  np_pow2 :: "npfloat \<Rightarrow> npfloat"
  np_add :: "npfloat \<Rightarrow> npfloat \<Rightarrow> npfloat"
  np_sub :: "npfloat \<Rightarrow> npfloat \<Rightarrow> npfloat"
  np_mul :: "npfloat \<Rightarrow> npfloat \<Rightarrow> npfloat"
  np_div :: "npfloat \<Rightarrow> npfloat \<Rightarrow> npfloat"
  np_sqrt :: "npfloat \<Rightarrow> npfloat"
  np_arccos :: "npfloat \<Rightarrow> npfloat"
  np_tan :: "npfloat \<Rightarrow> npfloat"
  np_degrees :: "npfloat \<Rightarrow> npfloat"

text \<open>
  Python's \<^verbatim>\<open>x**2\<close> on a float raises \<^verbatim>\<open>OverflowError\<close> when the result is out of
  range. The largest float below \<open>2^512\<close> has a square below the largest float, and
  \<open>2^512\<close> has the square \<open>2^1024\<close>, so the expression raises exactly when
  \<open>\<bar>x\<bar> \<ge> 2^512\<close> (about \<open>1.34e154\<close>). An underflow to zero raises nothing.
\<close>

definition py_pow2 :: "arith \<Rightarrow> real \<Rightarrow> error + npfloat" where
  "py_pow2 A x = (if 2 ^ 512 \<le> \<bar>x\<bar> then Inl OverflowError else Inr (float_pow2 A x))"

text \<open>
  Arithmetic without rounding, for reference: every operation returns the exact real
  result on finite arguments, and NaN where there is none. It is not the arithmetic of
  the program; it is the one the formulas of the specification are written in.
\<close>

definition lift1 :: "(real \<Rightarrow> real) \<Rightarrow> npfloat \<Rightarrow> npfloat" where
  "lift1 f x = (case x of Fin a \<Rightarrow> Fin (f a) | PInf \<Rightarrow> NaN | NInf \<Rightarrow> NaN | NaN \<Rightarrow> NaN)"

definition lift2 :: "(real \<Rightarrow> real \<Rightarrow> real) \<Rightarrow> npfloat \<Rightarrow> npfloat \<Rightarrow> npfloat" where
  "lift2 f x y = (case x of Fin a \<Rightarrow> lift1 (f a) y | PInf \<Rightarrow> NaN | NInf \<Rightarrow> NaN | NaN \<Rightarrow> NaN)"

definition exact :: arith where
  "exact =
    \<lparr>float_pow2 = (\<lambda>x. Fin (x\<^sup>2)),
     np_pow2 = lift1 (\<lambda>x. x\<^sup>2),
     np_add = lift2 (\<lambda>a b. a + b),
     np_sub = lift2 (\<lambda>a b. a - b),
     np_mul = lift2 (\<lambda>a b. a * b),
     np_div = (\<lambda>x y. if y = Fin 0 then NaN else lift2 (\<lambda>a b. a / b) x y),
     np_sqrt = (\<lambda>x. case x of Fin a \<Rightarrow> (if a < 0 then NaN else Fin (sqrt a))
                        | PInf \<Rightarrow> NaN | NInf \<Rightarrow> NaN | NaN \<Rightarrow> NaN),
     np_arccos = (\<lambda>x. case x of Fin a \<Rightarrow> (if - 1 \<le> a \<and> a \<le> 1 then Fin (arccos a) else NaN)
                        | PInf \<Rightarrow> NaN | NInf \<Rightarrow> NaN | NaN \<Rightarrow> NaN),
     np_tan = lift1 tan,
     np_degrees = lift1 (\<lambda>r. r * 180 / pi)\<rparr>"

section \<open>Report text\<close>

text \<open>
  An f-string of the report is a list of segments: literal text, and values formatted
  with \<^verbatim>\<open>:.2f\<close>. The formatted digits are not computed; the segment keeps the value.
\<close>

datatype seg = Lit string | Fix2 npfloat

text \<open>The non-ASCII characters of the report, as their UTF-8 bytes.\<close>

definition bullet :: string where
  "bullet = [CHR 0xE2, CHR 0x80, CHR 0xA2]"

definition phi_sym :: string where
  "phi_sym = [CHR 0xCF, CHR 0x86]"

definition theta_sym :: string where
  "theta_sym = [CHR 0xCE, CHR 0xB8]"

definition degree_sym :: string where
  "degree_sym = [CHR 0xC2, CHR 0xB0]"

definition nl :: string where
  "nl = [CHR 0x0A]"

section \<open>The plotting canvas and the widgets\<close>

type_synonym vec3 = "npfloat \<times> npfloat \<times> npfloat"

record arrow =
  a_base :: vec3
  a_dir :: vec3
  a_color :: string
  a_label :: string
  a_length_ratio :: real

record legend_box =
  lg_loc :: string
  lg_bbox_to_anchor :: "real \<times> real"
  lg_labels :: "string list"

record axes =
  collections :: "arrow list"
  lines :: "arrow list"
  xlim :: "real \<times> real"
  ylim :: "real \<times> real"
  zlim :: "real \<times> real"
  xlabel :: string
  ylabel :: string
  zlabel :: string
  title :: string
  legend :: "legend_box option"

text \<open>
  The program's mutable state: the 3D axes \<^verbatim>\<open>ax\<close>, the read-only report field
  \<^verbatim>\<open>text_box\<close>, the texts of the three input fields \<^verbatim>\<open>textboxes[0..2]\<close>, the number
  of calls of \<^verbatim>\<open>fig.canvas.draw()\<close> and what \<^verbatim>\<open>print\<close> has written.
\<close>

record gui =
  ax :: axes
  text_box :: "seg list"
  textboxes_0 :: string
  textboxes_1 :: string
  textboxes_2 :: string
  draws :: nat
  stdout :: "string list"

datatype input_type = In_P1 | In_cos_fi | In_D

section \<open>The calculation (\<^verbatim>\<open>update_plot\<close>, lines 11 to 35)\<close>

definition out_of_range_msg :: string where
  "out_of_range_msg = ''Values out of range. P1 must be greater than 0, D must be greater than or equal to 0, and cos(fi) between 0 and 1.''"

record derived =
  d_fi :: npfloat
  d_Q1 :: npfloat
  d_S1 :: npfloat
  d_S2 :: npfloat
  d_Q2 :: npfloat
  d_theta :: npfloat

text \<open>
  Lines 16 to 27, in the order of evaluation of the source. Line 18 evaluates
  \<^verbatim>\<open>P1_mag**2\<close> on a Python float, which may raise; \<^verbatim>\<open>Q1_mag**2\<close> is numpy's. Line 25
  evaluates \<^verbatim>\<open>S1_mag**2\<close> (numpy) and then \<^verbatim>\<open>D_mag**2\<close> (Python, may raise); line 26
  evaluates \<^verbatim>\<open>D_mag**2\<close> again, with the same result. The quotient of line 27 is
  numpy's, which raises nothing on a zero divisor. In the branch \<^verbatim>\<open>D_mag == 0\<close> the
  three values are the integer 0.
\<close>

definition calculate :: "arith \<Rightarrow> real \<Rightarrow> real \<Rightarrow> real \<Rightarrow> error + derived" where
  "calculate A P1_mag cos_fi D_mag =
    (let fi = np_arccos A (Fin cos_fi);
         Q1_mag = np_mul A (Fin P1_mag) (np_tan A fi)
     in case py_pow2 A P1_mag of
          Inl e \<Rightarrow> Inl e
        | Inr P1_sq \<Rightarrow>
           (let S1_mag = np_sqrt A (np_add A P1_sq (np_pow2 A Q1_mag))
            in if D_mag = 0
               then Inr \<lparr>d_fi = fi, d_Q1 = Q1_mag, d_S1 = S1_mag,
                         d_S2 = Fin 0, d_Q2 = Fin 0, d_theta = Fin 0\<rparr>
               else (case py_pow2 A D_mag of
                       Inl e \<Rightarrow> Inl e
                     | Inr D_sq \<Rightarrow>
                        (let S2_mag = np_sqrt A (np_add A (np_pow2 A S1_mag) D_sq);
                             Q2_mag = np_sqrt A (np_add A (np_pow2 A Q1_mag) D_sq);
                             theta = np_arccos A (np_div A (Fin P1_mag) S2_mag)
                         in Inr \<lparr>d_fi = fi, d_Q1 = Q1_mag, d_S1 = S1_mag,
                                  d_S2 = S2_mag, d_Q2 = Q2_mag, d_theta = theta\<rparr>))))"

text \<open>Arrays of three floats, added and subtracted element by element.\<close>

definition vadd :: "arith \<Rightarrow> vec3 \<Rightarrow> vec3 \<Rightarrow> vec3" where
  "vadd A a b = (case a of (a0, a1, a2) \<Rightarrow> case b of (b0, b1, b2) \<Rightarrow>
     (np_add A a0 b0, np_add A a1 b1, np_add A a2 b2))"

definition vsub :: "arith \<Rightarrow> vec3 \<Rightarrow> vec3 \<Rightarrow> vec3" where
  "vsub A a b = (case a of (a0, a1, a2) \<Rightarrow> case b of (b0, b1, b2) \<Rightarrow>
     (np_sub A a0 b0, np_sub A a1 b1, np_sub A a2 b2))"

record vectors =
  v_P :: vec3
  v_Q1 :: vec3
  v_S1 :: vec3
  v_D :: vec3
  v_S2 :: vec3
  v_Q2 :: vec3

text \<open>Lines 30 to 35.\<close>

definition coordinates :: "arith \<Rightarrow> real \<Rightarrow> npfloat \<Rightarrow> real \<Rightarrow> vectors" where
  "coordinates A P1_mag Q1_mag D_mag =
    (let P = (Fin P1_mag, Fin 0, Fin 0);
         Q1 = (Fin 0, Q1_mag, Fin 0);
         S1 = vadd A P Q1;
         D = (Fin 0, Fin 0, Fin D_mag);
         S2 = vadd A S1 D;
         Q2 = vsub A S2 P
     in \<lparr>v_P = P, v_Q1 = Q1, v_S1 = S1, v_D = D, v_S2 = S2, v_Q2 = Q2\<rparr>)"



section \<open>The report (\<^verbatim>\<open>update_text_box\<close>)\<close>

definition report_head ::
  "arith \<Rightarrow> real \<Rightarrow> real \<Rightarrow> real \<Rightarrow> npfloat \<Rightarrow> npfloat \<Rightarrow> npfloat \<Rightarrow> seg list" where
  "report_head A P1_mag cos_fi D_mag S1_mag Q1_mag fi =
    [Lit ('' '' @ bullet @ '' Apparent Power (S1): ''), Fix2 S1_mag, Lit ('' kVA'' @ nl @ nl),
     Lit ('' '' @ bullet @ '' Reactive Power (Q1): ''), Fix2 Q1_mag, Lit ('' kVAr'' @ nl @ nl),
     Lit ('' '' @ bullet @ '' Active Power (P): ''), Fix2 (Fin P1_mag), Lit ('' kW'' @ nl @ nl),
     Lit ('' '' @ bullet @ '' Cos('' @ phi_sym @ ''): ''), Fix2 (Fin cos_fi), Lit (nl @ nl),
     Lit ('' '' @ bullet @ '' Angle '' @ phi_sym @ '': ''), Fix2 (np_degrees A fi),
       Lit (degree_sym @ nl @ nl),
     Lit ('' '' @ bullet @ '' Harmonic Distortion (D): ''), Fix2 (Fin D_mag), Lit ('' kVAr'' @ nl @ nl)]"

text \<open>
  Both branches start with the same six lines (\<open>report_head\<close>, lines 68 to 73 and 79 to
  84). The branch \<^verbatim>\<open>D_mag == 0\<close> ends with four literal lines; the other formats
  \<^verbatim>\<open>S2_mag\<close>, \<^verbatim>\<open>Q2_mag\<close>, the quotient \<^verbatim>\<open>P1_mag/S2_mag\<close> and \<^verbatim>\<open>np.degrees(theta)\<close>.
\<close>

definition update_text_box ::
  "arith \<Rightarrow> real \<Rightarrow> real \<Rightarrow> real \<Rightarrow> npfloat \<Rightarrow> npfloat \<Rightarrow> npfloat \<Rightarrow> npfloat \<Rightarrow> npfloat \<Rightarrow> npfloat
    \<Rightarrow> seg list" where
  "update_text_box A P1_mag cos_fi D_mag S1_mag Q1_mag S2_mag Q2_mag fi theta =
    (if D_mag = 0
     then report_head A P1_mag cos_fi D_mag S1_mag Q1_mag fi @
       [Lit ('' '' @ bullet @ '' Apparent Power (S2): 0 kVA'' @ nl @ nl),
        Lit ('' '' @ bullet @ '' Reactive Power (Q2): 0 kVAr'' @ nl @ nl),
        Lit ('' '' @ bullet @ '' Power Factor: 0'' @ nl @ nl),
        Lit ('' '' @ bullet @ '' Angle '' @ theta_sym @ '': 0'' @ degree_sym)]
     else report_head A P1_mag cos_fi D_mag S1_mag Q1_mag fi @
       [Lit ('' '' @ bullet @ '' Apparent Power (S2): ''), Fix2 S2_mag, Lit ('' kVA'' @ nl @ nl),
        Lit ('' '' @ bullet @ '' Reactive Power (Q2): ''), Fix2 Q2_mag, Lit ('' kVAr'' @ nl @ nl),
        Lit ('' '' @ bullet @ '' Power Factor: ''), Fix2 (np_div A (Fin P1_mag) S2_mag), Lit (nl @ nl),
        Lit ('' '' @ bullet @ '' Angle '' @ theta_sym @ '': ''), Fix2 (np_degrees A theta),
        Lit degree_sym])"

section \<open>The renderer (\<^verbatim>\<open>update_plot\<close>)\<close>

definition quiver :: "vec3 \<Rightarrow> vec3 \<Rightarrow> string \<Rightarrow> string \<Rightarrow> axes \<Rightarrow> axes" where
  "quiver base dir col lab a =
    a\<lparr>collections := collections a @
      [\<lparr>a_base = base, a_dir = dir, a_color = col, a_label = lab, a_length_ratio = 12 / 100\<rparr>]\<rparr>"

text \<open>Lines 8 and 9: every artist of \<^verbatim>\<open>ax.collections + ax.lines\<close> is removed.\<close>

definition clear_artists :: "axes \<Rightarrow> axes" where
  "clear_artists a = a\<lparr>collections := [], lines := []\<rparr>"

text \<open>Lines 38 to 45.\<close>

definition draw_vectors :: "vectors \<Rightarrow> real \<Rightarrow> axes \<Rightarrow> axes" where
  "draw_vectors v D_mag a =
    (let a1 = quiver (Fin 0, Fin 0, Fin 0) (v_P v) ''r'' ''P'' a;
         a2 = quiver (v_P v) (v_Q1 v) ''maroon'' ''Q1'' a1;
         a3 = quiver (Fin 0, Fin 0, Fin 0) (v_S1 v) ''g'' ''S1'' a2
     in if D_mag > 0
        then quiver (Fin 0, Fin 0, Fin 0) (v_S2 v) ''b'' ''S2''
              (quiver (v_P v) (v_Q2 v) ''purple'' ''Q2''
                (quiver (v_S1 v) (v_D v) ''orange'' ''D'' a3))
        else a3)"

text \<open>
  Lines 48 to 61. The limit \<^verbatim>\<open>max(P1_mag, D_mag) * 2\<close> is the exact double of the larger
  input: doubling a float is exact unless it overflows, and it is computed only after
  lines 18 and 25 have passed, that is for inputs below \<open>2^512\<close>.
\<close>


definition adjust_axes :: "real \<Rightarrow> real \<Rightarrow> axes \<Rightarrow> axes" where
  "adjust_axes P1_mag D_mag a =
    (let max_lim = max P1_mag D_mag * 2;
         a1 = a\<lparr>xlim := (0, max_lim), ylim := (0, max_lim), zlim := (0, max_lim),
                xlabel := ''Active Power (kW)'',
                ylabel := ''Reactive Power (kVAr)'',
                zlabel := ''Harmonic Distortion'',
                title := ''Power Triangle With Harmonics''\<rparr>
     in if legend a1 = None
        then a1\<lparr>legend := Some \<lparr>lg_loc = ''center left'', lg_bbox_to_anchor = (11 / 10, 1 / 2),
                                  lg_labels = map a_label (collections a1)\<rparr>\<rparr>
        else a1)"

text \<open>
  \<^verbatim>\<open>update_plot\<close> returns the state it leaves behind and the exception it raised, if
  any. The artists are removed first; the range check of line 12 comes after, and the
  calculation, which may raise \<^verbatim>\<open>OverflowError\<close>, after that. Nothing is drawn and the
  report is not touched when either raises.
\<close>

definition update_plot :: "arith \<Rightarrow> real \<Rightarrow> real \<Rightarrow> real \<Rightarrow> gui \<Rightarrow> error option \<times> gui" where
  "update_plot A P1_mag cos_fi D_mag g =
    (let g1 = g\<lparr>ax := clear_artists (ax g)\<rparr>
     in if P1_mag \<le> 0 \<or> D_mag < 0 \<or> \<not> (0 < cos_fi \<and> cos_fi < 1)
        then (Some (ValueError out_of_range_msg), g1)
        else
          (case calculate A P1_mag cos_fi D_mag of
             Inl e \<Rightarrow> (Some e, g1)
           | Inr d \<Rightarrow>
              (let v = coordinates A P1_mag (d_Q1 d) D_mag;
                   g2 = g1\<lparr>ax := adjust_axes P1_mag D_mag (draw_vectors v D_mag (ax g1))\<rparr>
               in (None, g2\<lparr>text_box := update_text_box A P1_mag cos_fi D_mag (d_S1 d) (d_Q1 d)
                                            (d_S2 d) (d_Q2 d) (d_fi d) (d_theta d)\<rparr>))))"

section \<open>The input dispatcher (\<^verbatim>\<open>submit\<close>)\<close>

text \<open>
  Python's builtin \<^verbatim>\<open>float\<close> is a parameter \<open>pyfloat\<close> of the dispatcher: it returns
  the number a text denotes or the exception it raises. The submitted text is parsed
  first, then the texts of the other two fields, in the order of the source.
\<close>

definition and_then :: "error + 'a \<Rightarrow> ('a \<Rightarrow> error + 'b) \<Rightarrow> error + 'b" where
  "and_then r f = (case r of Inl e \<Rightarrow> Inl e | Inr x \<Rightarrow> f x)"

definition read_inputs ::
  "(string \<Rightarrow> error + real) \<Rightarrow> string \<Rightarrow> input_type \<Rightarrow> gui \<Rightarrow> error + (real \<times> real \<times> real)" where
  "read_inputs pyfloat text it g =
    and_then (pyfloat text) (\<lambda>val.
      case it of
        In_P1 \<Rightarrow>
          and_then (pyfloat (textboxes_1 g)) (\<lambda>cos_fi.
          and_then (pyfloat (textboxes_2 g)) (\<lambda>D_mag. Inr (val, cos_fi, D_mag)))
      | In_cos_fi \<Rightarrow>
          and_then (pyfloat (textboxes_0 g)) (\<lambda>P1_mag.
          and_then (pyfloat (textboxes_2 g)) (\<lambda>D_mag. Inr (P1_mag, val, D_mag)))
      | In_D \<Rightarrow>
          and_then (pyfloat (textboxes_0 g)) (\<lambda>P1_mag.
          and_then (pyfloat (textboxes_1 g)) (\<lambda>cos_fi. Inr (P1_mag, cos_fi, val))))"

text \<open>
  The handler \<^verbatim>\<open>except ValueError\<close> prints a \<^verbatim>\<open>ValueError\<close>; any other exception
  leaves \<^verbatim>\<open>submit\<close> uncaught. \<open>submit\<close> returns the exception that escapes it, if any,
  and the state it leaves behind.
\<close>

definition except_ValueError :: "error \<Rightarrow> gui \<Rightarrow> error option \<times> gui" where
  "except_ValueError e g =
    (case e of
       ValueError m \<Rightarrow> (None, g\<lparr>stdout := stdout g @ [''Error: '' @ m]\<rparr>)
     | OverflowError \<Rightarrow> (Some OverflowError, g))"

definition submit ::
  "arith \<Rightarrow> (string \<Rightarrow> error + real) \<Rightarrow> string \<Rightarrow> input_type \<Rightarrow> gui \<Rightarrow> error option \<times> gui" where
  "submit A pyfloat text it g =
    (case read_inputs pyfloat text it g of
       Inl e \<Rightarrow> except_ValueError e g
     | Inr (P1_mag, cos_fi, D_mag) \<Rightarrow>
        (case update_plot A P1_mag cos_fi D_mag g of
           (Some e, g') \<Rightarrow> except_ValueError e g'
         | (None, g') \<Rightarrow> (None, g'\<lparr>draws := draws g' + 1\<rparr>)))"

section \<open>Start-up (lines 115 to 142)\<close>

definition fresh_axes :: axes where
  "fresh_axes = \<lparr>collections = [], lines = [], xlim = (0, 1), ylim = (0, 1), zlim = (0, 1),
                 xlabel = [], ylabel = [], zlabel = [], title = [], legend = None\<rparr>"

definition initial_gui :: gui where
  "initial_gui = \<lparr>ax = fresh_axes, text_box = [], textboxes_0 = ''1'', textboxes_1 = ''0.8'',
                  textboxes_2 = ''1'', draws = 0, stdout = []\<rparr>"

definition startup :: "arith \<Rightarrow> gui" where
  "startup A = snd (update_plot A 1 (8 / 10) 1 initial_gui)"

section \<open>Facts about the calculation\<close>

text \<open>
  An input of magnitude \<open>2^512\<close> or more makes a Python square raise: \<^verbatim>\<open>P1_mag**2\<close> on
  line 18, or \<^verbatim>\<open>D_mag**2\<close> on line 25 when \<^verbatim>\<open>D_mag\<close> is not zero. Below that bound the
  calculation returns its six values, whatever the arithmetic.
\<close>

lemma calculate_overflow_P: "2 ^ 512 \<le> \<bar>P\<bar> \<Longrightarrow> calculate A P c D = Inl OverflowError"
  by (simp add: calculate_def py_pow2_def Let_def)

lemma calculate_overflow_D:
  "\<bar>P\<bar> < 2 ^ 512 \<Longrightarrow> D \<noteq> 0 \<Longrightarrow> 2 ^ 512 \<le> \<bar>D\<bar> \<Longrightarrow> calculate A P c D = Inl OverflowError"
  by (simp add: calculate_def py_pow2_def Let_def)

lemma calculate_returns:
  "\<bar>P\<bar> < 2 ^ 512 \<Longrightarrow> D = 0 \<or> \<bar>D\<bar> < 2 ^ 512 \<Longrightarrow> \<exists>d. calculate A P c D = Inr d"
  by (auto simp add: calculate_def py_pow2_def Let_def)

lemma calculate_Inr_projr: "\<bar>P\<bar> < 2 ^ 512 \<Longrightarrow> D = 0 \<or> \<bar>D\<bar> < 2 ^ 512 \<Longrightarrow>
  calculate A P c D = Inr (projr (calculate A P c D))"
  using calculate_returns [of P D A c] by auto

lemma default_calculate: "calculate A 1 (4 / 5) 1 = Inr (projr (calculate A 1 (4 / 5) 1))"
  by (rule calculate_Inr_projr) simp_all





section \<open>Facts about the renderer\<close>

text \<open>
  A call with values in range whose calculation returns leaves the axes redrawn and
  the report regenerated; one whose calculation raises leaves the cleared axes. A call
  that returns normally had values in range and a calculation that returned.
\<close>

lemma update_plot_ok:
  assumes "0 < P" "0 < c" "c < 1" "0 \<le> D" "calculate A P c D = Inr d"
  shows "update_plot A P c D g =
    (None, g\<lparr>ax := adjust_axes P D
                 (draw_vectors (coordinates A P (d_Q1 d) D) D (clear_artists (ax g))),
              text_box := update_text_box A P c D (d_S1 d) (d_Q1 d) (d_S2 d) (d_Q2 d) (d_fi d)
                 (d_theta d)\<rparr>)"
  using assms by (simp add: update_plot_def Let_def)

lemma update_plot_raises:
  assumes "0 < P" "0 < c" "c < 1" "0 \<le> D" "calculate A P c D = Inl e"
  shows "update_plot A P c D g = (Some e, g\<lparr>ax := clear_artists (ax g)\<rparr>)"
  using assms by (simp add: update_plot_def Let_def)

lemma update_plot_success:
  assumes "fst (update_plot A P c D g) = None"
  shows "0 < P \<and> 0 < c \<and> c < 1 \<and> 0 \<le> D \<and> (\<exists>d. calculate A P c D = Inr d)"
  using assms by (auto simp add: update_plot_def Let_def split: if_splits sum.splits)

lemma collections_drawn:
  "collections (adjust_axes P D (draw_vectors v D (clear_artists a))) =
    [\<lparr>a_base = (Fin 0, Fin 0, Fin 0), a_dir = v_P v, a_color = ''r'', a_label = ''P'',
      a_length_ratio = 12 / 100\<rparr>,
     \<lparr>a_base = v_P v, a_dir = v_Q1 v, a_color = ''maroon'', a_label = ''Q1'',
      a_length_ratio = 12 / 100\<rparr>,
     \<lparr>a_base = (Fin 0, Fin 0, Fin 0), a_dir = v_S1 v, a_color = ''g'', a_label = ''S1'',
      a_length_ratio = 12 / 100\<rparr>] @
    (if 0 < D
     then [\<lparr>a_base = v_S1 v, a_dir = v_D v, a_color = ''orange'', a_label = ''D'',
            a_length_ratio = 12 / 100\<rparr>,
           \<lparr>a_base = v_P v, a_dir = v_Q2 v, a_color = ''purple'', a_label = ''Q2'',
            a_length_ratio = 12 / 100\<rparr>,
           \<lparr>a_base = (Fin 0, Fin 0, Fin 0), a_dir = v_S2 v, a_color = ''b'', a_label = ''S2'',
            a_length_ratio = 12 / 100\<rparr>]
     else [])"
  by (simp add: adjust_axes_def draw_vectors_def quiver_def clear_artists_def Let_def)

lemma limits_set:
  "xlim (adjust_axes P D a) = (0, max P D * 2) \<and> ylim (adjust_axes P D a) = (0, max P D * 2) \<and>
   zlim (adjust_axes P D a) = (0, max P D * 2)"
  by (simp add: adjust_axes_def Let_def)






text \<open>
  The state after start-up, \<^verbatim>\<open>update_plot(1, 0.8, 1, ax)\<close>.
\<close>

lemma startup_eq:
  "startup A = snd (update_plot A 1 (4 / 5) 1 initial_gui)"
  by (simp add: startup_def)

lemma startup_fields:
  "textboxes_1 (startup A) = ''0.8'' \<and> textboxes_2 (startup A) = ''1'' \<and> stdout (startup A) = [] \<and>
   map a_label (collections (ax (startup A))) = [''P'', ''Q1'', ''S1'', ''D'', ''Q2'', ''S2''] \<and>
   legend (ax (startup A)) =
     Some \<lparr>lg_loc = ''center left'', lg_bbox_to_anchor = (11 / 10, 1 / 2),
           lg_labels = [''P'', ''Q1'', ''S1'', ''D'', ''Q2'', ''S2'']\<rparr>"
proof -
  have "startup A = snd (update_plot A 1 (4 / 5) 1 initial_gui)" by (rule startup_eq)
  also have "update_plot A 1 (4 / 5) 1 initial_gui =
    (None, initial_gui\<lparr>ax := adjust_axes 1 1
                 (draw_vectors (coordinates A 1 (d_Q1 (projr (calculate A 1 (4 / 5) 1))) 1) 1
                    (clear_artists (ax initial_gui))),
              text_box := update_text_box A 1 (4 / 5) 1 (d_S1 (projr (calculate A 1 (4 / 5) 1)))
                 (d_Q1 (projr (calculate A 1 (4 / 5) 1))) (d_S2 (projr (calculate A 1 (4 / 5) 1)))
                 (d_Q2 (projr (calculate A 1 (4 / 5) 1))) (d_fi (projr (calculate A 1 (4 / 5) 1)))
                 (d_theta (projr (calculate A 1 (4 / 5) 1)))\<rparr>)"
    by (rule update_plot_ok) (simp_all add: default_calculate [symmetric])
  finally show ?thesis
    by (simp add: collections_drawn initial_gui_def)
       (simp add: adjust_axes_def draw_vectors_def quiver_def clear_artists_def fresh_axes_def Let_def)
qed

section \<open>Facts about the arithmetic without rounding\<close>







section \<open>The axes\<close>

text \<open>
  C9. On every successful update the limits of the x, y and z axes are all set to
  the range from 0 to \<open>2 * max P D\<close>.
\<close>

theorem axis_limits:
  assumes "fst (update_plot A P c D g) = None"
  shows "xlim (ax (snd (update_plot A P c D g))) = (0, 2 * max P D) \<and>
         ylim (ax (snd (update_plot A P c D g))) = (0, 2 * max P D) \<and>
         zlim (ax (snd (update_plot A P c D g))) = (0, 2 * max P D)"
proof -
  from update_plot_success [OF assms] obtain d
    where v: "0 < P" "0 < c" "c < 1" "0 \<le> D" and d: "calculate A P c D = Inr d"
    by blast
  show ?thesis using limits_set by (simp add: update_plot_ok [OF v d] mult.commute)
qed

theorem axis_limits_witness:
  "fst (update_plot exact 1 (4 / 5) 1 initial_gui) = None \<and>
   xlim (ax (snd (update_plot exact 1 (4 / 5) 1 initial_gui))) = (0, 2) \<and>
   ylim (ax (snd (update_plot exact 1 (4 / 5) 1 initial_gui))) = (0, 2) \<and>
   zlim (ax (snd (update_plot exact 1 (4 / 5) 1 initial_gui))) = (0, 2)"
proof -
  have ok: "fst (update_plot exact 1 (4 / 5) 1 initial_gui) = None"
    using default_calculate [of exact] by (simp add: update_plot_ok)
  show ?thesis using axis_limits [OF ok] ok by simp
qed

section \<open>The input dispatcher\<close>

text \<open>
  A text that \<^verbatim>\<open>float\<close> rejects is reported before \<^verbatim>\<open>update_plot\<close> is called: only the
  printed output changes.
\<close>

lemma submit_not_a_number:
  "read_inputs pyfloat text it g = Inl (ValueError m) \<Longrightarrow>
   submit A pyfloat text it g = (None, g\<lparr>stdout := stdout g @ [''Error: '' @ m]\<rparr>)"
  by (simp add: submit_def except_ValueError_def)

text \<open>
  C1. When the three texts parse and a value is out of range, \<^verbatim>\<open>update_plot\<close> has
  removed every arrow (lines 8 and 9) before the check of line 12 raises. \<^verbatim>\<open>submit\<close>
  catches the error and prints it; the report is untouched and the figure is not drawn
  again, but the axes have lost their arrows. The witness submits the text "0" in the
  field of the active power after start-up: the six arrows of the default plot are gone.
\<close>

theorem submit_out_of_range_removes_arrows:
  assumes "read_inputs pyfloat text it g = Inr (P, c, D)"
    and "P \<le> 0 \<or> D < 0 \<or> \<not> (0 < c \<and> c < 1)"
  shows "submit A pyfloat text it g =
           (None, g\<lparr>ax := (ax g)\<lparr>collections := [], lines := []\<rparr>,
                    stdout := stdout g @ [''Error: '' @ out_of_range_msg]\<rparr>) \<and>
         collections (ax (snd (submit A pyfloat text it g))) = [] \<and>
         text_box (snd (submit A pyfloat text it g)) = text_box g \<and>
         draws (snd (submit A pyfloat text it g)) = draws g"
  using assms
  by (auto simp add: submit_def update_plot_def except_ValueError_def clear_artists_def Let_def)

theorem submit_out_of_range_removes_arrows_witness:
  "map a_label (collections (ax (startup exact))) = [''P'', ''Q1'', ''S1'', ''D'', ''Q2'', ''S2''] \<and>
   collections (ax (snd (submit exact
      (\<lambda>s. if s = ''0'' then Inr 0 else if s = ''0.8'' then Inr (8 / 10)
            else if s = ''1'' then Inr 1 else Inl (ValueError ''could not convert string to float''))
      ''0'' In_P1 (startup exact)))) = [] \<and>
   text_box (snd (submit exact
      (\<lambda>s. if s = ''0'' then Inr 0 else if s = ''0.8'' then Inr (8 / 10)
            else if s = ''1'' then Inr 1 else Inl (ValueError ''could not convert string to float''))
      ''0'' In_P1 (startup exact))) = text_box (startup exact) \<and>
   stdout (snd (submit exact
      (\<lambda>s. if s = ''0'' then Inr 0 else if s = ''0.8'' then Inr (8 / 10)
            else if s = ''1'' then Inr 1 else Inl (ValueError ''could not convert string to float''))
      ''0'' In_P1 (startup exact))) = [''Error: '' @ out_of_range_msg]"
proof -
  let ?f = "\<lambda>s. if s = ''0'' then Inr 0 else if s = ''0.8'' then Inr (8 / 10)
            else if s = ''1'' then Inr (1::real) else Inl (ValueError ''could not convert string to float'')"
  have r: "read_inputs ?f ''0'' In_P1 (startup exact) = Inr (0, 8 / 10, 1)"
    by (simp add: read_inputs_def and_then_def startup_fields)
  show ?thesis
    using submit_out_of_range_removes_arrows [OF r, of exact] startup_fields [of exact] by simp
qed

section \<open>Inputs in range on which the calculation raises\<close>

text \<open>
  C2. The calculator does not return for every input in range: with \<open>P \<ge> 2^512\<close>
  and the other two values in range, \<^verbatim>\<open>P1_mag**2\<close> on line 18 raises
  \<^verbatim>\<open>OverflowError\<close>. The error is not the validation error, the arrows have already been
  removed, and \<^verbatim>\<open>submit\<close>, which handles \<^verbatim>\<open>ValueError\<close> only, lets it escape. The
  witness submits the text "1e200" in the field of the active power after start-up.
\<close>

theorem large_input_overflow:
  assumes "read_inputs pyfloat text it g = Inr (P, c, D)"
    and "2 ^ 512 \<le> P" "0 < c" "c < 1" "0 \<le> D"
  shows "update_plot A P c D g = (Some OverflowError, g\<lparr>ax := clear_artists (ax g)\<rparr>) \<and>
         submit A pyfloat text it g = (Some OverflowError, g\<lparr>ax := clear_artists (ax g)\<rparr>)"
proof -
  have P: "0 < P" using assms(2) by (rule less_le_trans [rotated]) simp
  have "calculate A P c D = Inl OverflowError"
    using assms(2) by (intro calculate_overflow_P) simp
  then have u: "update_plot A P c D g = (Some OverflowError, g\<lparr>ax := clear_artists (ax g)\<rparr>)"
    using P assms(3-5) by (simp add: update_plot_raises)
  then show ?thesis using assms(1) by (simp add: submit_def except_ValueError_def)
qed

theorem large_input_overflow_witness:
  "update_plot exact (10 ^ 200) (8 / 10) 1 (startup exact) =
     (Some OverflowError, (startup exact)\<lparr>ax := clear_artists (ax (startup exact))\<rparr>) \<and>
   fst (submit exact
      (\<lambda>s. if s = ''1e200'' then Inr (10 ^ 200) else if s = ''0.8'' then Inr (8 / 10)
            else if s = ''1'' then Inr 1 else Inl (ValueError ''could not convert string to float''))
      ''1e200'' In_P1 (startup exact)) = Some OverflowError \<and>
   collections (ax (snd (submit exact
      (\<lambda>s. if s = ''1e200'' then Inr (10 ^ 200) else if s = ''0.8'' then Inr (8 / 10)
            else if s = ''1'' then Inr 1 else Inl (ValueError ''could not convert string to float''))
      ''1e200'' In_P1 (startup exact)))) = []"
proof -
  let ?f = "\<lambda>s. if s = ''1e200'' then Inr (10 ^ 200) else if s = ''0.8'' then Inr (8 / 10)
            else if s = ''1'' then Inr (1::real) else Inl (ValueError ''could not convert string to float'')"
  have r: "read_inputs ?f ''1e200'' In_P1 (startup exact) = Inr (10 ^ 200, 8 / 10, 1)"
    by (simp add: read_inputs_def and_then_def startup_fields)
  have b: "(2::real) ^ 512 \<le> 10 ^ 200" by simp
  show ?thesis
    using large_input_overflow [OF r b, of exact] by (simp add: clear_artists_def)
qed

text \<open>
  C4. With \<open>D = 0\<close>, \<open>0 < cos_fi < 1\<close> and \<open>P \<ge> 2^512\<close>, line 18 raises before the
  branch \<^verbatim>\<open>D_mag == 0\<close> of line 20 is reached: no arrow is left on the axes and the
  report is not regenerated, so it does not show the zero magnitudes.
\<close>

theorem zero_distortion_overflow:
  assumes "2 ^ 512 \<le> P" "0 < c" "c < 1"
  shows "fst (update_plot A P c 0 g) = Some OverflowError \<and>
         collections (ax (snd (update_plot A P c 0 g))) = [] \<and>
         text_box (snd (update_plot A P c 0 g)) = text_box g"
proof -
  have P: "0 < P" using assms(1) by (rule less_le_trans [rotated]) simp
  have "calculate A P c 0 = Inl OverflowError"
    using assms(1) by (intro calculate_overflow_P) simp
  then show ?thesis using P assms(2,3) by (simp add: update_plot_raises clear_artists_def)
qed

theorem zero_distortion_overflow_witness:
  "fst (update_plot exact (10 ^ 200) (8 / 10) 0 (startup exact)) = Some OverflowError \<and>
   collections (ax (snd (update_plot exact (10 ^ 200) (8 / 10) 0 (startup exact)))) = [] \<and>
   text_box (snd (update_plot exact (10 ^ 200) (8 / 10) 0 (startup exact))) = text_box (startup exact)"
  by (rule zero_distortion_overflow) simp_all

text \<open>
  C5. With \<open>P\<close> and \<open>cos_fi\<close> in range, \<open>P < 2^512\<close> and \<open>D \<ge> 2^512\<close>, the expression
  \<^verbatim>\<open>D_mag**2\<close> on line 25 raises \<^verbatim>\<open>OverflowError\<close>: the input is valid and has
  \<open>D > 0\<close>, and no value of \<open>S2\<close>, \<open>Q2\<close> or \<open>theta\<close> is derived.
\<close>

theorem large_distortion_overflow:
  assumes "0 < P" "P < 2 ^ 512" "0 < c" "c < 1" "2 ^ 512 \<le> D"
  shows "calculate A P c D = Inl OverflowError \<and>
         update_plot A P c D g = (Some OverflowError, g\<lparr>ax := clear_artists (ax g)\<rparr>)"
proof -
  have D: "0 < D" using assms(5) by (rule less_le_trans [rotated]) simp
  have c: "calculate A P c D = Inl OverflowError"
    using assms(1,2,5) D by (intro calculate_overflow_D) simp_all
  then show ?thesis using assms D by (simp add: update_plot_raises)
qed

theorem large_distortion_overflow_witness:
  "calculate exact 1 (8 / 10) (10 ^ 200) = Inl OverflowError \<and>
   update_plot exact 1 (8 / 10) (10 ^ 200) initial_gui =
     (Some OverflowError, initial_gui\<lparr>ax := clear_artists (ax initial_gui)\<rparr>)"
  by (rule large_distortion_overflow) simp_all

section \<open>The drawn vectors\<close>




end
